theory Spec2Isabelle
  imports Main
begin

section \<open>JavaScript values\<close>

text \<open>
  The simulator of \<^verbatim>\<open>src/pipeline.js\<close> is dynamically typed. The values that flow
  through registers, memory, the program counter and the stage results are numbers,
  \<^verbatim>\<open>undefined\<close> (a missing field, an array hole, the result of a stage that computes
  nothing), \<^verbatim>\<open>NaN\<close> (arithmetic on \<^verbatim>\<open>undefined\<close>) and the boolean result of
  \<^verbatim>\<open>beq\<close> in the execute stage. Numbers are modelled as unbounded integers, which
  is exact as long as the magnitudes stay below \<open>2^53\<close>.
\<close>

datatype jsval = Undefined | Num int | NaN | Bool bool

fun ToNumber :: "jsval \<Rightarrow> jsval" where
  "ToNumber Undefined = NaN"
| "ToNumber (Num n) = Num n"
| "ToNumber NaN = NaN"
| "ToNumber (Bool b) = Num (if b then 1 else 0)"

fun js_arith :: "(int \<Rightarrow> int \<Rightarrow> int) \<Rightarrow> jsval \<Rightarrow> jsval \<Rightarrow> jsval" where
  "js_arith f (Num x) (Num y) = Num (f x y)"
| "js_arith f _ _ = NaN"

definition js_add :: "jsval \<Rightarrow> jsval \<Rightarrow> jsval" where
  "js_add a b = js_arith (+) (ToNumber a) (ToNumber b)"

definition js_sub :: "jsval \<Rightarrow> jsval \<Rightarrow> jsval" where
  "js_sub a b = js_arith (-) (ToNumber a) (ToNumber b)"

definition js_mul :: "jsval \<Rightarrow> jsval \<Rightarrow> jsval" where
  "js_mul a b = js_arith (*) (ToNumber a) (ToNumber b)"

text \<open>\<^verbatim>\<open>a === b\<close>: equal values of the same type, and \<^verbatim>\<open>NaN\<close> differs from itself.\<close>

definition strict_eq :: "jsval \<Rightarrow> jsval \<Rightarrow> bool" where
  "strict_eq a b = (a = b \<and> a \<noteq> NaN)"

fun truthy :: "jsval \<Rightarrow> bool" where
  "truthy Undefined = False"
| "truthy (Num n) = (n \<noteq> 0)"
| "truthy NaN = False"
| "truthy (Bool b) = b"

text \<open>\<^verbatim>\<open>a || b\<close>\<close>

definition js_or :: "jsval \<Rightarrow> jsval \<Rightarrow> jsval" where
  "js_or a b = (if truthy a then a else b)"

text \<open>A numeric field of an object that may be absent reads as \<^verbatim>\<open>undefined\<close>.\<close>

fun field :: "int option \<Rightarrow> jsval" where
  "field None = Undefined"
| "field (Some n) = Num n"

section \<open>Instructions and engine state\<close>

datatype InstructionType = R_TYPE | I_TYPE | J_TYPE | NOP

text \<open>
  The instruction objects are the object literals built by the parser and the NOP
  literals of the decode stage. A field the literal does not set is \<open>None\<close>
  (\<^verbatim>\<open>undefined\<close> when read). The \<^verbatim>\<open>toString\<close> methods only render text and are left out.
\<close>

record Instruction =
  type :: InstructionType
  opcode :: string
  rs :: "nat option"
  rt :: "nat option"
  rd :: "nat option"
  offset :: "int option"
  target :: "int option"
  labelName :: "string option"

text \<open>The literal \<^verbatim>\<open>{ type: InstructionType.NOP, opcode: 'nop' }\<close>.\<close>

definition nop_object :: Instruction where
  "nop_object = \<lparr>type = NOP, opcode = ''nop'', rs = None, rt = None, rd = None,
                  offset = None, target = None, labelName = None\<rparr>"

text \<open>
  Stage payloads: the ID slot holds \<^verbatim>\<open>{instruction, rsValue, rtValue}\<close>; the EX, MEM and
  WB slots hold \<^verbatim>\<open>{instruction, result}\<close>; the IF slot holds the instruction itself.
  An empty slot (\<^verbatim>\<open>null\<close>) is \<open>None\<close>. The fields \<^verbatim>\<open>IF\<close>, \<^verbatim>\<open>ID\<close>, \<^verbatim>\<open>EX\<close>, \<^verbatim>\<open>MEM\<close>,
  \<^verbatim>\<open>WB\<close> of \<^verbatim>\<open>pipelineStages\<close> carry the suffix \<open>_slot\<close> here.
\<close>

record stage_payload =
  instruction :: Instruction

record id_payload = stage_payload +
  rsValue :: jsval
  rtValue :: jsval

record ex_payload = stage_payload +
  result :: jsval

record pipelineStages_t =
  IF_slot :: "Instruction option"
  ID_slot :: "id_payload option"
  EX_slot :: "ex_payload option"
  MEM_slot :: "ex_payload option"
  WB_slot :: "ex_payload option"

text \<open>
  \<^verbatim>\<open>registradores\<close> is a JavaScript array read and written at \<^verbatim>\<open>instruction.rs\<close>,
  \<^verbatim>\<open>rt\<close>, \<^verbatim>\<open>rd\<close>: the key is a register index or the key \<^verbatim>\<open>undefined\<close> (\<open>None\<close>),
  and a key never written reads \<^verbatim>\<open>undefined\<close>.
  \<^verbatim>\<open>memoria\<close> is read and written at \<^verbatim>\<open>address / 4\<close>, where \<^verbatim>\<open>address\<close> is a number
  or \<^verbatim>\<open>NaN\<close>; the model keys it by \<^verbatim>\<open>address\<close> itself (slot \<open>i\<close> of the array is the
  key \<open>Num (4 * i)\<close>), so that an unaligned address is a key of its own, as in JavaScript.
  The two \<^verbatim>\<open>Map\<close>s are keyed by the values passed in.
\<close>

record MIPSPipeline =
  registradores :: "nat option \<Rightarrow> jsval"
  memoria :: "jsval \<Rightarrow> jsval"
  pipelineStages :: pipelineStages_t
  PC :: jsval
  branchPredictor :: "jsval \<rightharpoonup> int"
  stalled :: bool
  cycle :: int
  instructionCache :: "jsval \<rightharpoonup> Instruction"
  isRunning :: bool
  runInterval :: "nat option"
  runSpeed :: int

definition empty_stages :: pipelineStages_t where
  "empty_stages = \<lparr>IF_slot = None, ID_slot = None, EX_slot = None, MEM_slot = None,
                    WB_slot = None\<rparr>"

text \<open>\<^verbatim>\<open>new Array(32).fill(0)\<close> and \<^verbatim>\<open>new Array(1024).fill(0)\<close>.\<close>

definition new_registradores :: "nat option \<Rightarrow> jsval" where
  "new_registradores k = (case k of Some i \<Rightarrow> if i < 32 then Num 0 else Undefined
                                   | None \<Rightarrow> Undefined)"

definition new_memoria :: "jsval \<Rightarrow> jsval" where
  "new_memoria k = (case k of Num a \<Rightarrow> if 0 \<le> a \<and> a < 4096 \<and> a mod 4 = 0 then Num 0 else Undefined
                            | _ \<Rightarrow> Undefined)"

definition constructor :: MIPSPipeline where
  "constructor = \<lparr>registradores = new_registradores, memoria = new_memoria,
                   pipelineStages = empty_stages, PC = Num 0, branchPredictor = Map.empty,
                   stalled = False, cycle = 0, instructionCache = Map.empty,
                   isRunning = False, runInterval = None, runSpeed = 1000\<rparr>"

section \<open>Forwarding\<close>

text \<open>
  \<^verbatim>\<open>executeForwarding\<close> updates the payload of the ID slot in two blocks, first from the
  EX slot, then from the MEM slot. The second variant of the engine in the repository has
  the same method.
\<close>

definition executeForwarding :: "MIPSPipeline \<Rightarrow> MIPSPipeline" where
  "executeForwarding s =
    (case (ID_slot (pipelineStages s), EX_slot (pipelineStages s)) of
       (Some idS, Some exS) \<Rightarrow>
         (let idInstruction = instruction idS;
              exInstruction = instruction exS;
              id1 = (if type exInstruction = R_TYPE \<and> rs idInstruction = rd exInstruction
                     then idS\<lparr>rsValue := result exS\<rparr> else idS);
              id2 = (if type exInstruction = R_TYPE \<and> rt idInstruction = rd exInstruction
                     then id1\<lparr>rtValue := result exS\<rparr> else id1);
              id4 = (case MEM_slot (pipelineStages s) of
                       None \<Rightarrow> id2
                     | Some memS \<Rightarrow>
                         (let memInstruction = instruction memS;
                              id3 = (if type memInstruction = R_TYPE
                                        \<and> rs idInstruction = rd memInstruction
                                     then id2\<lparr>rsValue := result memS\<rparr> else id2)
                          in if type memInstruction = R_TYPE
                                \<and> rt idInstruction = rd memInstruction
                             then id3\<lparr>rtValue := result memS\<rparr> else id3))
          in s\<lparr>pipelineStages := (pipelineStages s)\<lparr>ID_slot := Some id4\<rparr>\<rparr>)
     | _ \<Rightarrow> s)"

section \<open>Hazard detection\<close>

definition detectStructuralHazard :: "MIPSPipeline \<Rightarrow> bool" where
  "detectStructuralHazard s =
    (if (case (MEM_slot (pipelineStages s), IF_slot (pipelineStages s)) of
           (Some memS, Some ifInstruction) \<Rightarrow>
             (let memInstruction = instruction memS
              in (opcode memInstruction = ''lw'' \<or> opcode memInstruction = ''sw'')
                 \<and> (opcode ifInstruction = ''lw'' \<or> opcode ifInstruction = ''sw''))
         | _ \<Rightarrow> False)
     then True
     else (case (EX_slot (pipelineStages s), ID_slot (pipelineStages s)) of
             (Some exS, Some idS) \<Rightarrow>
               opcode (instruction exS) = ''mul'' \<and> opcode (instruction idS) = ''mul''
           | _ \<Rightarrow> False))"

definition detectDataHazard :: "MIPSPipeline \<Rightarrow> bool" where
  "detectDataHazard s =
    (case (ID_slot (pipelineStages s), EX_slot (pipelineStages s)) of
       (Some idS, Some exS) \<Rightarrow>
         (let idInstruction = instruction idS;
              exInstruction = instruction exS
          in if type exInstruction = R_TYPE
                \<and> (rs idInstruction = rd exInstruction \<or> rt idInstruction = rd exInstruction)
             then True
             else if opcode exInstruction = ''lw''
                     \<and> (rs idInstruction = rt exInstruction \<or> rt idInstruction = rt exInstruction)
             then True
             else False)
     | _ \<Rightarrow> False)"

definition detectControlHazard :: "MIPSPipeline \<Rightarrow> bool" where
  "detectControlHazard s =
    (case ID_slot (pipelineStages s) of
       None \<Rightarrow> False
     | Some idS \<Rightarrow> opcode (instruction idS) = ''beq'' \<or> opcode (instruction idS) = ''j'')"

definition detectHazards :: "MIPSPipeline \<Rightarrow> bool" where
  "detectHazards s =
    (detectStructuralHazard s \<or> detectDataHazard s \<or> detectControlHazard s)"

section \<open>The five stages\<close>

definition executeWB :: "MIPSPipeline \<Rightarrow> MIPSPipeline" where
  "executeWB s =
    (case MEM_slot (pipelineStages s) of
       None \<Rightarrow> s
     | Some memS \<Rightarrow>
         (let instr = instruction memS;
              res = result memS;
              s1 = (if type instr = R_TYPE
                    then s\<lparr>registradores := (registradores s)(rd instr := res)\<rparr>
                    else if opcode instr = ''lw''
                    then s\<lparr>registradores := (registradores s)(rt instr := res)\<rparr>
                    else s)
          in s1\<lparr>pipelineStages := (pipelineStages s1)
                  \<lparr>WB_slot := Some \<lparr>instruction = instr, result = res\<rparr>,
                   MEM_slot := None\<rparr>\<rparr>))"

definition executeMEM :: "MIPSPipeline \<Rightarrow> MIPSPipeline" where
  "executeMEM s =
    (case EX_slot (pipelineStages s) of
       None \<Rightarrow> s
     | Some exS \<Rightarrow>
         (let instr = instruction exS;
              address = js_add (registradores s (rs instr)) (field (offset instr));
              res = (if opcode instr = ''lw'' then memoria s address else result exS);
              s1 = (if opcode instr = ''sw''
                    then s\<lparr>memoria := (memoria s)(address := registradores s (rt instr))\<rparr>
                    else s)
          in s1\<lparr>pipelineStages := (pipelineStages s1)
                  \<lparr>MEM_slot := Some \<lparr>instruction = instr, result = res\<rparr>,
                   EX_slot := None\<rparr>\<rparr>))"

definition executeEX :: "MIPSPipeline \<Rightarrow> MIPSPipeline" where
  "executeEX s =
    (case ID_slot (pipelineStages s) of
       None \<Rightarrow> s
     | Some idS \<Rightarrow>
         (let instr = instruction idS;
              res = (if opcode instr = ''add'' then js_add (rsValue idS) (rtValue idS)
                     else if opcode instr = ''sub'' then js_sub (rsValue idS) (rtValue idS)
                     else if opcode instr = ''mul'' then js_mul (rsValue idS) (rtValue idS)
                     else if opcode instr = ''beq'' then Bool (strict_eq (rsValue idS) (rtValue idS))
                     else Undefined)
          in s\<lparr>pipelineStages := (pipelineStages s)
                 \<lparr>EX_slot := Some \<lparr>instruction = instr, result = res\<rparr>,
                  ID_slot := None\<rparr>\<rparr>))"

text \<open>
  The control part of \<^verbatim>\<open>executeID\<close>: what the stage does to \<^verbatim>\<open>PC\<close> and to the IF slot
  before it builds the ID payload.
\<close>

definition executeID_control :: "MIPSPipeline \<Rightarrow> Instruction \<Rightarrow> MIPSPipeline" where
  "executeID_control s instr =
    (if opcode instr = ''beq'' \<or> opcode instr = ''j'' then
       (if opcode instr = ''beq'' then
          (let rsV = js_or (registradores s (rs instr)) (Num 0);
               rtV = js_or (registradores s (rt instr)) (Num 0);
               actualTaken = strict_eq rsV rtV
           in if actualTaken
              then s\<lparr>PC := js_mul (field (offset instr)) (Num 4),
                     pipelineStages := (pipelineStages s)\<lparr>IF_slot := Some nop_object\<rparr>\<rparr>
              else s\<lparr>PC := js_add (PC s) (Num 4)\<rparr>)
        else
          s\<lparr>PC := js_mul (field (target instr)) (Num 4),
             pipelineStages := (pipelineStages s)\<lparr>IF_slot := Some nop_object\<rparr>\<rparr>)
     else s\<lparr>PC := js_add (PC s) (Num 4)\<rparr>)"

definition executeID :: "MIPSPipeline \<Rightarrow> MIPSPipeline" where
  "executeID s =
    (case IF_slot (pipelineStages s) of
       None \<Rightarrow> s
     | Some instr \<Rightarrow>
         (let s1 = executeID_control s instr
          in s1\<lparr>pipelineStages := (pipelineStages s1)
                  \<lparr>ID_slot := Some \<lparr>instruction = instr,
                                    rsValue = js_or (registradores s1 (rs instr)) (Num 0),
                                    rtValue = js_or (registradores s1 (rt instr)) (Num 0)\<rparr>,
                   IF_slot := None\<rparr>\<rparr>))"

definition fetchInstruction :: "MIPSPipeline \<Rightarrow> jsval \<Rightarrow> Instruction option" where
  "fetchInstruction s address = instructionCache s address"

definition executeIF :: "MIPSPipeline \<Rightarrow> MIPSPipeline" where
  "executeIF s =
    (if \<not> stalled s then
       (case fetchInstruction s (PC s) of
          Some instr \<Rightarrow> s\<lparr>pipelineStages := (pipelineStages s)\<lparr>IF_slot := Some instr\<rparr>\<rparr>
        | None \<Rightarrow> s)
     else s)"

text \<open>
  One cycle. The call of \<^verbatim>\<open>updateUI\<close> at the end renders the state and changes none of
  it.
\<close>

definition executeCycle :: "MIPSPipeline \<Rightarrow> MIPSPipeline" where
  "executeCycle s =
    (let s1 = executeForwarding s;
         hasHazard = detectHazards s1;
         s2 = s1\<lparr>stalled := hasHazard\<rparr>;
         s3 = executeWB s2;
         s4 = executeMEM s3;
         s5 = executeEX s4;
         s6 = executeID s5;
         s7 = executeIF s6
     in s7\<lparr>cycle := cycle s7 + 1\<rparr>)"

section \<open>Branch predictor\<close>

text \<open>\<^verbatim>\<open>BranchState\<close>\<close>

definition STRONGLY_TAKEN :: int where "STRONGLY_TAKEN = 3"
definition WEAKLY_TAKEN :: int where "WEAKLY_TAKEN = 2"
definition WEAKLY_NOT_TAKEN :: int where "WEAKLY_NOT_TAKEN = 1"
definition STRONGLY_NOT_TAKEN :: int where "STRONGLY_NOT_TAKEN = 0"

text \<open>The lazy initialisation both methods start with.\<close>

definition lazy_init :: "MIPSPipeline \<Rightarrow> jsval \<Rightarrow> MIPSPipeline" where
  "lazy_init s address =
    (if branchPredictor s address = None
     then s\<lparr>branchPredictor := (branchPredictor s)(address \<mapsto> WEAKLY_NOT_TAKEN)\<rparr>
     else s)"

definition predictBranch :: "MIPSPipeline \<Rightarrow> jsval \<Rightarrow> bool \<times> MIPSPipeline" where
  "predictBranch s address =
    (let s1 = lazy_init s address
     in (case branchPredictor s1 address of
           Some state \<Rightarrow> state \<ge> WEAKLY_TAKEN
         | None \<Rightarrow> False,
         s1))"

definition updateBranchPredictor :: "MIPSPipeline \<Rightarrow> jsval \<Rightarrow> bool \<Rightarrow> MIPSPipeline" where
  "updateBranchPredictor s address taken =
    (let s1 = lazy_init s address
     in (case branchPredictor s1 address of
           Some state \<Rightarrow>
             s1\<lparr>branchPredictor := (branchPredictor s1)
                  (address \<mapsto> (if taken then min (state + 1) STRONGLY_TAKEN
                                else max (state - 1) STRONGLY_NOT_TAKEN))\<rparr>
         | None \<Rightarrow> s1))"

section \<open>Reset\<close>

definition stop :: "MIPSPipeline \<Rightarrow> MIPSPipeline" where
  "stop s = (if \<not> isRunning s then s else s\<lparr>isRunning := False, runInterval := None\<rparr>)"

definition reset :: "MIPSPipeline \<Rightarrow> MIPSPipeline" where
  "reset s =
    (stop s)\<lparr>registradores := new_registradores,
             memoria := new_memoria,
             pipelineStages := empty_stages,
             PC := Num 0,
             branchPredictor := Map.empty,
             instructionCache := Map.empty,
             stalled := False,
             cycle := 0\<rparr>"

section \<open>Strings\<close>

text \<open>
  Program text is a list of code units below 256. White space is what \<^verbatim>\<open>trim\<close> and the
  regular expression class \<^verbatim>\<open>\s\<close> remove there: tab, line feed, vertical tab, form feed,
  carriage return, space and the no-break space.
\<close>

definition is_space :: "char \<Rightarrow> bool" where
  "is_space c = (c \<in> set [CHR 0x09, CHR 0x0A, CHR 0x0B, CHR 0x0C, CHR 0x0D, CHR '' '', CHR 0xA0])"

definition is_digit :: "char \<Rightarrow> bool" where
  "is_digit c = (let n = (of_char c :: nat) in 48 \<le> n \<and> n \<le> 57)"

text \<open>The class \<^verbatim>\<open>\w\<close>: letters, digits and the underscore.\<close>

definition is_word :: "char \<Rightarrow> bool" where
  "is_word c = (let n = (of_char c :: nat)
                in (48 \<le> n \<and> n \<le> 57) \<or> (65 \<le> n \<and> n \<le> 90) \<or> (97 \<le> n \<and> n \<le> 122) \<or> n = 95)"

text \<open>The class \<^verbatim>\<open>.\<close> excludes the line terminators.\<close>

definition is_line_terminator :: "char \<Rightarrow> bool" where
  "is_line_terminator c = (c = CHR 0x0A \<or> c = CHR 0x0D)"

definition trim :: "string \<Rightarrow> string" where
  "trim s = rev (dropWhile is_space (rev (dropWhile is_space s)))"

definition lower_char :: "char \<Rightarrow> char" where
  "lower_char c = (let n = (of_char c :: nat)
                   in if (65 \<le> n \<and> n \<le> 90) \<or> (192 \<le> n \<and> n \<le> 222 \<and> n \<noteq> 215)
                      then char_of (n + 32) else c)"

definition toLowerCase :: "string \<Rightarrow> string" where
  "toLowerCase s = map lower_char s"

definition startsWith :: "string \<Rightarrow> char \<Rightarrow> bool" where
  "startsWith s c = (case s of [] \<Rightarrow> False | x # _ \<Rightarrow> x = c)"

text \<open>\<^verbatim>\<open>s.split(c)\<close> for a separator of one character.\<close>

fun split_on :: "char \<Rightarrow> string \<Rightarrow> string list" where
  "split_on c [] = [[]]"
| "split_on c (x # xs) =
     (if x = c then [] # split_on c xs
      else (case split_on c xs of
              p # ps \<Rightarrow> (x # p) # ps
            | [] \<Rightarrow> [[x]]))"

text \<open>\<^verbatim>\<open>s.split(/\s+/)\<close>\<close>

function split_ws :: "string \<Rightarrow> string list" where
  "split_ws s =
     (let tok = takeWhile (\<lambda>c. \<not> is_space c) s;
          rest = dropWhile (\<lambda>c. \<not> is_space c) s
      in if rest = [] then [tok] else tok # split_ws (dropWhile is_space rest))"
  by pat_completeness auto
termination
proof (relation "measure length")
  show "wf (measure length)" by simp
next
  fix s :: string and tok rest
  assume r: "rest = dropWhile (\<lambda>c. \<not> is_space c) s" and ne: "rest \<noteq> []"
  from ne obtain x xs where rx: "rest = x # xs" by (cases rest) auto
  have "is_space x" using r rx by (metis (mono_tags, lifting) hd_dropWhile list.sel(1) ne)
  then have "length (dropWhile is_space rest) \<le> length xs"
    using rx by (simp add: length_dropWhile_le)
  moreover have "length rest \<le> length s" using r by (simp add: length_dropWhile_le)
  ultimately show "(dropWhile is_space rest, s) \<in> measure length"
    using rx by simp
qed

declare split_ws.simps [simp del]

text \<open>\<^verbatim>\<open>s.replace(',', '')\<close> removes the first comma only.\<close>

definition replace_comma :: "string \<Rightarrow> string" where
  "replace_comma s = remove1 (CHR '','') s"

text \<open>
  \<^verbatim>\<open>parseInt(s)\<close>; \<open>None\<close> is \<^verbatim>\<open>NaN\<close>. Leading white space, a sign, the prefix
  \<^verbatim>\<open>0x\<close> for radix 16, then the longest run of digits, read as an exact integer.
\<close>

definition digit_val :: "char \<Rightarrow> int" where
  "digit_val c = (let n = (of_char c :: nat)
                  in if 48 \<le> n \<and> n \<le> 57 then int n - 48
                     else if 97 \<le> n \<and> n \<le> 102 then int n - 87
                     else int n - 55)"

definition is_hex_digit :: "char \<Rightarrow> bool" where
  "is_hex_digit c = (let n = (of_char c :: nat)
                     in (48 \<le> n \<and> n \<le> 57) \<or> (97 \<le> n \<and> n \<le> 102) \<or> (65 \<le> n \<and> n \<le> 70))"

definition digits_val :: "int \<Rightarrow> string \<Rightarrow> int" where
  "digits_val radix ds = foldl (\<lambda>acc c. acc * radix + digit_val c) 0 ds"

definition parseInt :: "string \<Rightarrow> int option" where
  "parseInt s =
     (let t = dropWhile is_space s;
          sign = (if startsWith t (CHR ''-'') then - 1 else 1);
          u = (if startsWith t (CHR ''-'') \<or> startsWith t (CHR ''+'') then tl t else t);
          hex = (take 2 u = ''0x'' \<or> take 2 u = ''0X'');
          ds = (if hex then takeWhile is_hex_digit (drop 2 u) else takeWhile is_digit u)
      in if ds = [] then None
         else Some (sign * digits_val (if hex then 16 else 10) ds))"

section \<open>Parser\<close>

text \<open>
  \<^verbatim>\<open>RegisterAlias\<close> has the keys \<^verbatim>\<open>$s0\<close> to \<^verbatim>\<open>$s31\<close>, built from the decimal rendering
  of the index.
\<close>

definition decimal :: "nat \<Rightarrow> string" where
  "decimal n = (if n < 10 then [char_of (48 + n)]
                else [char_of (48 + n div 10), char_of (48 + n mod 10)])"

definition RegisterAlias :: "(string \<times> nat) list" where
  "RegisterAlias = map (\<lambda>i. (''$s'' @ decimal i, i)) [0..<32]"

text \<open>\<open>None\<close> is the \<^verbatim>\<open>null\<close> of an invalid register.\<close>

definition parseRegister :: "string \<Rightarrow> nat option" where
  "parseRegister str = map_of RegisterAlias (trim (replace_comma str))"

definition parseRTypeInstruction :: "string list \<Rightarrow> Instruction option" where
  "parseRTypeInstruction parts =
     (if length parts \<noteq> 4 then None
      else (let rd' = parseRegister (parts ! 1);
                rs' = parseRegister (parts ! 2);
                rt' = parseRegister (parts ! 3)
            in if rd' = None \<or> rs' = None \<or> rt' = None then None
               else Some \<lparr>type = R_TYPE, opcode = parts ! 0, rs = rs', rt = rt', rd = rd',
                          offset = None, target = None, labelName = None\<rparr>))"

text \<open>
  The match of \<^verbatim>\<open>/(-?\d+)\((\$\w+)\)/\<close>: \<open>match_here\<close> matches at the start of the string,
  \<open>offsetMatch\<close> searches for the leftmost position that matches. Both groups are returned.
\<close>

definition match_here :: "string \<Rightarrow> (string \<times> string) option" where
  "match_here s =
     (let neg = startsWith s (CHR ''-'');
          s1 = (if neg then tl s else s);
          ds = takeWhile is_digit s1;
          r1 = dropWhile is_digit s1
      in if ds = [] then None
         else if take 2 r1 \<noteq> ''($'' then None
         else (let w = takeWhile is_word (drop 2 r1);
                   r2 = dropWhile is_word (drop 2 r1)
               in if w = [] \<or> \<not> startsWith r2 (CHR '')'') then None
                  else Some ((if neg then [CHR ''-''] else []) @ ds, CHR ''$'' # w)))"

fun offsetMatch :: "string \<Rightarrow> (string \<times> string) option" where
  "offsetMatch [] = None"
| "offsetMatch (c # cs) =
     (case match_here (c # cs) of
        Some m \<Rightarrow> Some m
      | None \<Rightarrow> offsetMatch cs)"

definition parseITypeInstruction ::
  "string list \<Rightarrow> (string \<rightharpoonup> int) \<Rightarrow> Instruction option" where
  "parseITypeInstruction parts labels =
     (let opc = toLowerCase (parts ! 0)
      in if opc = ''beq'' then
           (if length parts \<noteq> 4 then None
            else (let rs' = parseRegister (parts ! 1);
                      rt' = parseRegister (parts ! 2);
                      offset' = (case labels (parts ! 3) of
                                   Some idx \<Rightarrow> Some idx
                                 | None \<Rightarrow> parseInt (parts ! 3))
                  in if rs' = None \<or> rt' = None \<or> offset' = None then None
                     else Some \<lparr>type = I_TYPE, opcode = ''beq'', rs = rs', rt = rt', rd = None,
                                offset = offset', target = None,
                                labelName = (if labels (parts ! 3) \<noteq> None
                                             then Some (parts ! 3) else None)\<rparr>))
         else if opc = ''lw'' \<or> opc = ''sw'' then
           (if length parts \<noteq> 3 then None
            else (let rt' = parseRegister (parts ! 1)
                  in case offsetMatch (parts ! 2) of
                       None \<Rightarrow> None
                     | Some (g1, g2) \<Rightarrow>
                         (let offset' = parseInt g1;
                              rs' = parseRegister g2
                          in if rs' = None \<or> rt' = None then None
                             else Some \<lparr>type = I_TYPE, opcode = opc, rs = rs', rt = rt',
                                        rd = None, offset = offset', target = None,
                                        labelName = None\<rparr>)))
         else None)"

definition parseJTypeInstruction ::
  "string list \<Rightarrow> (string \<rightharpoonup> int) \<Rightarrow> Instruction option" where
  "parseJTypeInstruction parts labels =
     (if length parts \<noteq> 2 then None
      else (let target' = (case labels (parts ! 1) of
                             Some idx \<Rightarrow> Some idx
                           | None \<Rightarrow> parseInt (parts ! 1))
            in if target' = None then None
               else Some \<lparr>type = J_TYPE, opcode = parts ! 0, rs = None, rt = None, rd = None,
                          offset = None, target = target',
                          labelName = (if labels (parts ! 1) \<noteq> None
                                       then Some (parts ! 1) else None)\<rparr>))"

definition parseInstruction :: "string \<Rightarrow> (string \<rightharpoonup> int) \<Rightarrow> Instruction option" where
  "parseInstruction line labels =
     (let line1 = trim (hd (split_on (CHR ''#'') line))
      in if line1 = [] then None
         else (case split_ws line1 of
                 [] \<Rightarrow> None
               | p0 # ps \<Rightarrow>
                   (let opc = toLowerCase p0;
                        parts = p0 # map (\<lambda>p. trim (replace_comma p)) ps
                    in if opc = ''add'' \<or> opc = ''sub'' \<or> opc = ''mul''
                       then parseRTypeInstruction parts
                       else if opc = ''lw'' \<or> opc = ''sw'' \<or> opc = ''beq''
                       then parseITypeInstruction parts labels
                       else if opc = ''j''
                       then parseJTypeInstruction parts labels
                       else if opc = ''nop''
                       then Some nop_object
                       else None)))"

section \<open>Loader\<close>

text \<open>
  \<^verbatim>\<open>trimmedLine.match(/^(\w+):\s*(.*)$/)\<close>: the label and the rest of the line, when the
  line starts with a word followed by a colon and the rest has no line terminator.
\<close>

definition labelMatch :: "string \<Rightarrow> (string \<times> string) option" where
  "labelMatch t =
     (let w = takeWhile is_word t;
          r = dropWhile is_word t
      in if w = [] \<or> \<not> startsWith r (CHR '':'') then None
         else (let rest = dropWhile is_space (tl r)
               in if list_ex is_line_terminator rest then None
                  else Some (w, rest)))"

text \<open>The line with its label removed, as both passes compute it.\<close>

definition strip_label :: "string \<Rightarrow> string" where
  "strip_label line =
     (let trimmedLine = trim line
      in case labelMatch trimmedLine of
           Some (label, rest) \<Rightarrow> trim rest
         | None \<Rightarrow> trimmedLine)"

definition holds_instruction :: "string \<Rightarrow> bool" where
  "holds_instruction trimmedLine = (trimmedLine \<noteq> [] \<and> \<not> startsWith trimmedLine (CHR ''#''))"

text \<open>
  The body of the first loop. \<^verbatim>\<open>address\<close> is always a multiple of four there, so
  \<^verbatim>\<open>address / 4\<close> is the integer quotient.
\<close>

definition firstPass_line ::
  "(string \<rightharpoonup> int) \<times> int \<Rightarrow> string \<Rightarrow> (string \<rightharpoonup> int) \<times> int" where
  "firstPass_line st line =
     (let labels = fst st;
          address = snd st;
          labels1 = (case labelMatch (trim line) of
                       Some (label, rest) \<Rightarrow> labels(label \<mapsto> address div 4)
                     | None \<Rightarrow> labels)
      in (labels1, if holds_instruction (strip_label line) then address + 4 else address))"

text \<open>The body of the second loop.\<close>

definition secondPass_line ::
  "(string \<rightharpoonup> int) \<Rightarrow> (jsval \<rightharpoonup> Instruction) \<times> int \<Rightarrow> string
     \<Rightarrow> (jsval \<rightharpoonup> Instruction) \<times> int" where
  "secondPass_line labels st line =
     (let cache = fst st;
          address = snd st;
          trimmedLine = strip_label line
      in if holds_instruction trimmedLine
         then (case parseInstruction trimmedLine labels of
                 Some instr \<Rightarrow> (cache(Num address \<mapsto> instr), address + 4)
               | None \<Rightarrow> (cache, address + 4))
         else (cache, address))"

definition program_lines :: "string \<Rightarrow> string list" where
  "program_lines programText = split_on (CHR 0x0A) programText"

definition firstPass :: "string list \<Rightarrow> (string \<rightharpoonup> int)" where
  "firstPass lines = fst (foldl firstPass_line (Map.empty, 0) lines)"

definition secondPass ::
  "string list \<Rightarrow> (string \<rightharpoonup> int) \<Rightarrow> (jsval \<rightharpoonup> Instruction) \<times> int" where
  "secondPass lines labels = foldl (secondPass_line labels) (Map.empty, 0) lines"

text \<open>
  \<^verbatim>\<open>loadProgram\<close>: the store is cleared, \<^verbatim>\<open>PC\<close> is set to 0 and the two passes run. The
  alert on an empty store and the rendering change no state.
\<close>

definition loadProgram :: "MIPSPipeline \<Rightarrow> string \<Rightarrow> MIPSPipeline" where
  "loadProgram s programText =
     (let lines = program_lines programText;
          labels = firstPass lines
      in s\<lparr>instructionCache := fst (secondPass lines labels), PC := Num 0\<rparr>)"

section \<open>Sequences of predictor calls\<close>

datatype predictor_call = Predict jsval | Update jsval bool

fun run_call :: "MIPSPipeline \<Rightarrow> predictor_call \<Rightarrow> MIPSPipeline" where
  "run_call s (Predict a) = snd (predictBranch s a)"
| "run_call s (Update a taken) = updateBranchPredictor s a taken"

definition run_calls :: "MIPSPipeline \<Rightarrow> predictor_call list \<Rightarrow> MIPSPipeline" where
  "run_calls s cs = foldl run_call s cs"

text \<open>Every counter of the table is one of the four branch states.\<close>

definition counters_in_range :: "MIPSPipeline \<Rightarrow> bool" where
  "counters_in_range s =
     (\<forall>a v. branchPredictor s a = Some v \<longrightarrow> STRONGLY_NOT_TAKEN \<le> v \<and> v \<le> STRONGLY_TAKEN)"

definition update_taken :: "jsval \<Rightarrow> MIPSPipeline \<Rightarrow> MIPSPipeline" where
  "update_taken a s = updateBranchPredictor s a True"

section \<open>The hazard conditions as the specification words them\<close>

definition is_load_store :: "Instruction \<Rightarrow> bool" where
  "is_load_store i = (opcode i = ''lw'' \<or> opcode i = ''sw'')"

definition spec_structural :: "MIPSPipeline \<Rightarrow> bool" where
  "spec_structural s =
     ((case MEM_slot (pipelineStages s) of Some m \<Rightarrow> is_load_store (instruction m) | None \<Rightarrow> False)
        \<and> (case IF_slot (pipelineStages s) of Some i \<Rightarrow> is_load_store i | None \<Rightarrow> False)
      \<or> (case EX_slot (pipelineStages s) of Some e \<Rightarrow> opcode (instruction e) = ''mul'' | None \<Rightarrow> False)
        \<and> (case ID_slot (pipelineStages s) of Some d \<Rightarrow> opcode (instruction d) = ''mul'' | None \<Rightarrow> False))"

definition spec_data :: "MIPSPipeline \<Rightarrow> bool" where
  "spec_data s =
     (case EX_slot (pipelineStages s) of
        None \<Rightarrow> False
      | Some e \<Rightarrow>
          (case ID_slot (pipelineStages s) of
             None \<Rightarrow> False
           | Some d \<Rightarrow>
               (type (instruction e) = R_TYPE
                  \<and> (rs (instruction d) = rd (instruction e) \<or> rt (instruction d) = rd (instruction e)))
               \<or> (opcode (instruction e) = ''lw''
                  \<and> (rs (instruction d) = rt (instruction e) \<or> rt (instruction d) = rt (instruction e)))))"

definition spec_control :: "MIPSPipeline \<Rightarrow> bool" where
  "spec_control s =
     (case ID_slot (pipelineStages s) of
        None \<Rightarrow> False
      | Some d \<Rightarrow> opcode (instruction d) = ''beq'' \<or> opcode (instruction d) = ''j'')"

definition spec_hazard :: "MIPSPipeline \<Rightarrow> bool" where
  "spec_hazard s = (spec_structural s \<or> spec_data s \<or> spec_control s)"

section \<open>The instruction lines of a program\<close>

text \<open>
  The lines that consume an address: label removed, not empty and not a comment. Both
  loops of the loader advance \<^verbatim>\<open>address\<close> on exactly these lines.
\<close>

definition instruction_lines :: "string list \<Rightarrow> string list" where
  "instruction_lines lines = filter holds_instruction (map strip_label lines)"

section \<open>Example instructions, programs and states\<close>

definition r_type :: "string \<Rightarrow> nat \<Rightarrow> nat \<Rightarrow> nat \<Rightarrow> Instruction" where
  "r_type opc d s t = \<lparr>type = R_TYPE, opcode = opc, rs = Some s, rt = Some t, rd = Some d,
                        offset = None, target = None, labelName = None\<rparr>"

definition i_type :: "string \<Rightarrow> nat \<Rightarrow> nat \<Rightarrow> int \<Rightarrow> Instruction" where
  "i_type opc s t off = \<lparr>type = I_TYPE, opcode = opc, rs = Some s, rt = Some t, rd = None,
                          offset = Some off, target = None, labelName = None\<rparr>"

definition j_type :: "int \<Rightarrow> Instruction" where
  "j_type tgt = \<lparr>type = J_TYPE, opcode = ''j'', rs = None, rt = None, rd = None,
                  offset = None, target = Some tgt, labelName = None\<rparr>"

text \<open>
  Three instructions, the second and the third reading or writing the \<^verbatim>\<open>$s1\<close> that the
  first writes, loaded into a new engine whose registers \<^verbatim>\<open>$s2\<close>, \<^verbatim>\<open>$s3\<close>, \<^verbatim>\<open>$s4\<close>,
  \<^verbatim>\<open>$s5\<close> are then set to 1, 2, 10, 20, as the file loader of the page does.
\<close>

definition forwarding_program :: string where
  "forwarding_program =
     ''add $s1, $s2, $s3'' @ [CHR 0x0A] @ ''add $s1, $s4, $s5'' @ [CHR 0x0A]
       @ ''add $s6, $s1, $s0''"

definition forwarding_run :: MIPSPipeline where
  "forwarding_run =
     (loadProgram constructor forwarding_program)
       \<lparr>registradores := new_registradores
          (Some 2 := Num 1, Some 3 := Num 2, Some 4 := Num 10, Some 5 := Num 20)\<rparr>"

text \<open>The state of that run at the start of its fifth cycle.\<close>

definition forwarding_state :: MIPSPipeline where
  "forwarding_state = (executeCycle ^^ 4) forwarding_run"

text \<open>
  \<^verbatim>\<open>beq $s1, $s2, 5\<close> in IF at \<^verbatim>\<open>PC = 8\<close>, with \<^verbatim>\<open>$s1 = 1\<close> and \<^verbatim>\<open>$s2 = 2\<close> (not taken)
  and with \<^verbatim>\<open>$s1 = $s2 = 0\<close> (taken); \<^verbatim>\<open>j 3\<close> in IF.
\<close>

definition beq_taken_state :: MIPSPipeline where
  "beq_taken_state =
     constructor\<lparr>pipelineStages := empty_stages\<lparr>IF_slot := Some (i_type ''beq'' 1 2 5)\<rparr>,
                 PC := Num 8\<rparr>"

definition beq_not_taken_state :: MIPSPipeline where
  "beq_not_taken_state =
     beq_taken_state\<lparr>registradores := new_registradores(Some 1 := Num 1, Some 2 := Num 2)\<rparr>"

definition j_state :: MIPSPipeline where
  "j_state = constructor\<lparr>pipelineStages := empty_stages\<lparr>IF_slot := Some (j_type 3)\<rparr>,
                         PC := Num 8\<rparr>"

text \<open>The one-line programs of the end-to-end branch scenario.\<close>

definition loop_program_unspaced :: string where
  "loop_program_unspaced = ''loop: beq $s0,$s0,loop''"

definition loop_program :: string where
  "loop_program = ''loop: beq $s0, $s0, loop''"

text \<open>MEM holds an instruction with result 7, over registers that are all 0.\<close>

definition wb_state :: "Instruction \<Rightarrow> MIPSPipeline" where
  "wb_state i =
     constructor\<lparr>pipelineStages := empty_stages\<lparr>MEM_slot := Some \<lparr>instruction = i, result = Num 7\<rparr>\<rparr>\<rparr>"

text \<open>
  A program whose second line has an invalid register token and whose third line has a
  malformed operand.
\<close>

definition hole_program :: string where
  "hole_program =
     ''add $s1, $s2, $s3'' @ [CHR 0x0A] @ ''add $s1, $t0, $s3'' @ [CHR 0x0A]
       @ ''lw $s4, 8'' @ [CHR 0x0A] @ ''nop''"

section \<open>The store a program should produce\<close>

text \<open>
  The \<open>n\<close>-th instruction line belongs at the address \<open>4 * n\<close>, and the store holds there
  whatever the parser makes of it: nothing when the line is rejected.
\<close>

definition store_of :: "(string \<rightharpoonup> int) \<Rightarrow> string list \<Rightarrow> (jsval \<rightharpoonup> Instruction)" where
  "store_of labels ils k =
     (case k of
        Num a \<Rightarrow> if 0 \<le> a \<and> a mod 4 = 0 \<and> nat (a div 4) < length ils
                 then parseInstruction (ils ! nat (a div 4)) labels
                 else None
      | _ \<Rightarrow> None)"

text \<open>The branch of \<open>loop_program\<close> as the parser builds it, and the engine after the load.\<close>

definition loop_beq :: Instruction where
  "loop_beq = \<lparr>type = I_TYPE, opcode = ''beq'', rs = Some 0, rt = Some 0, rd = None,
                offset = Some 0, target = None, labelName = Some ''loop''\<rparr>"

definition loop_loaded :: MIPSPipeline where
  "loop_loaded = loadProgram constructor loop_program"

definition loop_unspaced_loaded :: MIPSPipeline where
  "loop_unspaced_loaded = loadProgram constructor loop_program_unspaced"

section \<open>Properties of the branch predictor\<close>

lemmas branch_states =
  STRONGLY_TAKEN_def WEAKLY_TAKEN_def WEAKLY_NOT_TAKEN_def STRONGLY_NOT_TAKEN_def

lemma predict_table:
  "branchPredictor (snd (predictBranch s a)) =
     (case branchPredictor s a of
        None \<Rightarrow> (branchPredictor s)(a \<mapsto> 1)
      | Some v \<Rightarrow> branchPredictor s)"
  by (simp add: predictBranch_def lazy_init_def branch_states split: option.splits)

lemma predict_value:
  "fst (predictBranch s a) = (case branchPredictor s a of None \<Rightarrow> False | Some v \<Rightarrow> 2 \<le> v)"
  by (simp add: predictBranch_def lazy_init_def branch_states split: option.splits)

lemma update_table:
  "branchPredictor (updateBranchPredictor s a taken) =
     (branchPredictor s)(a \<mapsto>
        (let v = (case branchPredictor s a of None \<Rightarrow> 1 | Some v \<Rightarrow> v)
         in if taken then min (v + 1) 3 else max (v - 1) 0))"
  by (auto simp add: updateBranchPredictor_def lazy_init_def branch_states Let_def
           split: option.splits)

lemma update_taken_saturated:
  "branchPredictor s a = Some 3 \<Longrightarrow> branchPredictor ((update_taken a ^^ n) s) a = Some 3"
  by (induction n) (simp_all add: update_taken_def update_table)

text \<open>
  C3. For an address \<open>a\<close> that the table has not seen, \<open>predictBranch\<close> answers not-taken,
  whether or not that first prediction is made; after three \<open>updateBranchPredictor\<close> calls
  with outcome taken the counter of \<open>a\<close> is 3 and the prediction is taken, and any number of
  further taken updates leaves the counter at 3 and the prediction taken.
\<close>

theorem C3_predictor_saturates:
  assumes "branchPredictor s a = None"
  shows "\<not> fst (predictBranch s a)
       \<and> (\<forall>s0 \<in> {s, snd (predictBranch s a)}. \<forall>n.
            branchPredictor ((update_taken a ^^ (3 + n)) s0) a = Some STRONGLY_TAKEN
            \<and> fst (predictBranch ((update_taken a ^^ (3 + n)) s0) a))"
proof -
  have first: "\<not> fst (predictBranch s a)"
    using assms by (simp add: predict_value)
  have three: "branchPredictor ((update_taken a ^^ 3) s0) a = Some 3"
    if "branchPredictor s0 a = None \<or> branchPredictor s0 a = Some 1" for s0
    using that by (auto simp add: numeral_3_eq_3 update_taken_def update_table)
  have later: "branchPredictor ((update_taken a ^^ (3 + n)) s0) a = Some 3"
    if "branchPredictor s0 a = None \<or> branchPredictor s0 a = Some 1" for s0 n
  proof -
    have "(update_taken a ^^ (3 + n)) s0 = (update_taken a ^^ n) ((update_taken a ^^ 3) s0)"
      by (simp add: add.commute funpow_add)
    then show ?thesis using three [OF that] by (simp add: update_taken_saturated)
  qed
  have start: "branchPredictor s0 a = None \<or> branchPredictor s0 a = Some 1"
    if "s0 \<in> {s, snd (predictBranch s a)}" for s0
    using that assms by (auto simp add: predict_table)
  show ?thesis
    using first later [OF start] by (auto simp add: predict_value branch_states)
qed

theorem C3_predictor_saturates_witness:
  "\<not> fst (predictBranch constructor (Num 8))
   \<and> branchPredictor ((update_taken (Num 8) ^^ 3) constructor) (Num 8) = Some 3
   \<and> fst (predictBranch ((update_taken (Num 8) ^^ 5) constructor) (Num 8))"
proof -
  have unseen: "branchPredictor constructor (Num 8) = None"
    by (simp add: constructor_def)
  show ?thesis
    using C3_predictor_saturates [OF unseen]
    by (auto simp add: branch_states dest: spec [of _ 0] spec [of _ 2])
qed

lemma run_call_in_range:
  assumes "counters_in_range s"
  shows "counters_in_range (run_call s c)"
proof -
  have old: "0 \<le> v \<and> v \<le> 3" if "branchPredictor s b = Some v" for b v
    using assms that unfolding counters_in_range_def branch_states by blast
  have "0 \<le> v \<and> v \<le> 3" if new: "branchPredictor (run_call s c) b = Some v" for b v
  proof (cases c)
    case (Predict a)
    then show ?thesis
      using new old [of b v] by (auto simp add: predict_table split: option.splits if_splits)
  next
    case (Update a taken)
    show ?thesis
    proof (cases "b = a")
      case True
      show ?thesis
      proof (cases "branchPredictor s a")
        case None
        then show ?thesis
          using new Update True by (auto simp add: update_table split: if_splits)
      next
        case (Some v0)
        then show ?thesis
          using new Update True old [of a v0]
          by (auto simp add: update_table split: if_splits)
      qed
    next
      case False
      then show ?thesis
        using new Update old [of b v] by (simp add: update_table)
    qed
  qed
  then show ?thesis
    unfolding counters_in_range_def branch_states by blast
qed

lemma run_call_dom: "dom (branchPredictor s) \<subseteq> dom (branchPredictor (run_call s c))"
  by (cases c) (auto simp add: predict_table update_table split: option.splits)

lemma run_calls_in_range: "counters_in_range s \<Longrightarrow> counters_in_range (run_calls s cs)"
  unfolding run_calls_def
  by (induction cs arbitrary: s) (simp_all add: run_call_in_range)

lemma run_calls_dom: "dom (branchPredictor s) \<subseteq> dom (branchPredictor (run_calls s cs))"
  unfolding run_calls_def
proof (induction cs arbitrary: s)
  case Nil
  show ?case by simp
next
  case (Cons c cs)
  have "dom (branchPredictor s) \<subseteq> dom (branchPredictor (run_call s c))"
    by (rule run_call_dom)
  also have "\<dots> \<subseteq> dom (branchPredictor (foldl run_call (run_call s c) cs))"
    by (rule Cons.IH)
  finally show ?case by simp
qed

text \<open>
  C8. From a table whose counters all lie in \<open>{0,1,2,3}\<close> (the empty table of a new or
  reset engine is one), every sequence of \<open>predictBranch\<close> and \<open>updateBranchPredictor\<close>
  calls leads to a table whose counters all lie in \<open>{0,1,2,3}\<close>, and every address that
  had an entry before still has one afterwards. An unseen address gets its entry on the
  first reference, with the value 1 (which a first update moves at once to 2 or 0), and
  \<open>reset\<close> leaves the table empty.
\<close>

theorem C8_predictor_table_invariant:
  assumes "counters_in_range s"
  shows "counters_in_range (run_calls s cs)
       \<and> dom (branchPredictor s) \<subseteq> dom (branchPredictor (run_calls s cs))
       \<and> (branchPredictor s a = None \<longrightarrow>
            branchPredictor (snd (predictBranch s a)) a = Some WEAKLY_NOT_TAKEN
            \<and> branchPredictor (updateBranchPredictor s a True) a = Some WEAKLY_TAKEN
            \<and> branchPredictor (updateBranchPredictor s a False) a = Some STRONGLY_NOT_TAKEN)
       \<and> counters_in_range constructor
       \<and> branchPredictor (reset s) = Map.empty"
proof -
  have "counters_in_range constructor"
    by (simp add: counters_in_range_def constructor_def)
  moreover have "branchPredictor (reset s) = Map.empty"
    by (simp add: reset_def)
  ultimately show ?thesis
    using run_calls_in_range [OF assms] run_calls_dom
    by (simp add: predict_table update_table branch_states)
qed

theorem C8_predictor_table_invariant_witness:
  "counters_in_range constructor
   \<and> counters_in_range
       (run_calls constructor [Update (Num 0) False, Update (Num 0) False, Predict (Num 4),
                               Update (Num 4) True, Update (Num 4) True, Update (Num 4) True])
   \<and> branchPredictor (snd (predictBranch constructor (Num 4))) (Num 4) = Some 1"
proof -
  have start: "counters_in_range constructor"
    by (simp add: counters_in_range_def constructor_def)
  have unseen: "branchPredictor constructor (Num 4) = None"
    by (simp add: constructor_def)
  show ?thesis
    using C8_predictor_table_invariant [OF start, of _ "Num 4"] unseen
    by (simp add: branch_states)
qed

section \<open>Evaluating cycles on concrete states\<close>

lemma executeCycle_stages:
  "executeCycle s =
     (let s7 = executeIF (executeID (executeEX (executeMEM (executeWB
                 ((executeForwarding s)\<lparr>stalled := detectHazards (executeForwarding s)\<rparr>)))))
      in s7\<lparr>cycle := cycle s7 + 1\<rparr>)"
  by (simp add: executeCycle_def Let_def)

lemmas engine_defs =
  executeForwarding_def detectHazards_def detectStructuralHazard_def detectDataHazard_def
  detectControlHazard_def executeWB_def executeMEM_def executeEX_def executeID_def
  executeID_control_def executeIF_def fetchInstruction_def

lemmas value_defs = js_add_def js_sub_def js_mul_def js_or_def strict_eq_def

lemmas example_defs =
  constructor_def empty_stages_def new_registradores_def new_memoria_def r_type_def i_type_def
  j_type_def nop_object_def

section \<open>Properties of the loader\<close>

lemma store_of_Nil: "store_of labels [] = Map.empty"
  by (rule ext) (simp add: store_of_def split: jsval.splits)

lemma aligned_index:
  fixes a :: int
  assumes "0 \<le> a" and "a mod 4 = 0"
  shows "a = 4 * int (nat (a div 4))"
  using assms by auto

lemma store_of_snoc:
  "store_of labels (ils @ [l]) =
     (case parseInstruction l labels of
        Some i \<Rightarrow> (store_of labels ils)(Num (4 * int (length ils)) \<mapsto> i)
      | None \<Rightarrow> store_of labels ils)"
proof (rule ext)
  fix k
  show "store_of labels (ils @ [l]) k =
          (case parseInstruction l labels of
             Some i \<Rightarrow> (store_of labels ils)(Num (4 * int (length ils)) \<mapsto> i)
           | None \<Rightarrow> store_of labels ils) k"
  proof (cases k)
    case (Num a)
    show ?thesis
    proof (cases "0 \<le> a \<and> a mod 4 = 0")
      case aligned: True
      define n where "n = nat (a div 4)"
      have a: "a = 4 * int n"
        unfolding n_def using aligned by (intro aligned_index) simp_all
      consider "n < length ils" | "n = length ils" | "length ils < n"
        by linarith
      then show ?thesis
      proof cases
        case 1
        then show ?thesis
          using Num a by (simp add: store_of_def nth_append split: option.splits)
      next
        case 2
        then show ?thesis
          using Num a by (simp add: store_of_def split: option.splits)
      next
        case 3
        then show ?thesis
          using Num a by (simp add: store_of_def split: option.splits)
      qed
    next
      case False
      then have "a \<noteq> 4 * int (length ils)" by auto
      then show ?thesis
        using Num False by (auto simp add: store_of_def split: option.splits)
    qed
  qed (simp_all add: store_of_def split: option.splits)
qed

lemma instruction_lines_snoc:
  "instruction_lines (lines @ [line]) =
     instruction_lines lines
       @ (if holds_instruction (strip_label line) then [strip_label line] else [])"
  by (simp add: instruction_lines_def)

lemma secondPass_result:
  "secondPass lines labels =
     (store_of labels (instruction_lines lines), 4 * int (length (instruction_lines lines)))"
proof (induction lines rule: rev_induct)
  case Nil
  show ?case
    by (simp add: secondPass_def instruction_lines_def store_of_Nil)
next
  case (snoc line lines)
  have step: "secondPass (lines @ [line]) labels =
                secondPass_line labels (secondPass lines labels) line"
    by (simp add: secondPass_def)
  show ?case
  proof (cases "holds_instruction (strip_label line)")
    case True
    then show ?thesis
      unfolding step snoc.IH
      by (auto simp add: secondPass_line_def Let_def instruction_lines_snoc store_of_snoc
               fun_upd_def split: option.splits)
  next
    case False
    then show ?thesis
      unfolding step snoc.IH
      by (simp add: secondPass_line_def Let_def instruction_lines_snoc)
  qed
qed

lemma store_of_keys:
  assumes "store_of labels ils k \<noteq> None"
  shows "\<exists>n < length ils. k = Num (4 * int n)"
proof (cases k)
  case (Num a)
  with assms have "0 \<le> a" "a mod 4 = 0" "nat (a div 4) < length ils"
    by (auto simp add: store_of_def split: if_splits)
  moreover from this have "a = 4 * int (nat (a div 4))"
    by (intro aligned_index)
  ultimately show ?thesis
    using Num by blast
qed (use assms in \<open>simp_all add: store_of_def\<close>)

lemma store_of_at:
  "n < length ils \<Longrightarrow> store_of labels ils (Num (4 * int n)) = parseInstruction (ils ! n) labels"
  by (simp add: store_of_def)

text \<open>
  C7. After \<open>loadProgram\<close>, with the instruction lines of the program numbered from 0 in
  order (the lines that are neither empty nor a comment once the label is removed):
  every key of the instruction store is \<open>4 * n\<close> for one of these lines, so a multiple
  of 4; the store holds at \<open>4 * n\<close> exactly what the parser returns for line \<open>n\<close>, so
  nothing where the line is rejected, whatever the lines before it were; and the
  address counter ends at 4 times the number of instruction lines. In the loop body, a
  rejected instruction line leaves the store as it was and advances the counter by 4.
\<close>

theorem C7_store_addresses:
  "(\<forall>k. instructionCache (loadProgram s programText) k \<noteq> None \<longrightarrow>
        (\<exists>n < length (instruction_lines (program_lines programText)). k = Num (4 * int n)))
   \<and> (\<forall>n < length (instruction_lines (program_lines programText)).
        instructionCache (loadProgram s programText) (Num (4 * int n)) =
          parseInstruction (instruction_lines (program_lines programText) ! n)
            (firstPass (program_lines programText)))
   \<and> snd (secondPass (program_lines programText) (firstPass (program_lines programText))) =
        4 * int (length (instruction_lines (program_lines programText)))
   \<and> (\<forall>labels cache address line.
        holds_instruction (strip_label line)
          \<and> parseInstruction (strip_label line) labels = None
        \<longrightarrow> secondPass_line labels (cache, address) line = (cache, address + 4))"
proof -
  have "instructionCache (loadProgram s programText) =
          store_of (firstPass (program_lines programText))
            (instruction_lines (program_lines programText))"
    by (simp add: loadProgram_def Let_def secondPass_result)
  then show ?thesis
    using store_of_keys store_of_at
    by (simp add: secondPass_result secondPass_line_def Let_def)
qed

lemma hole_program_lines:
  "instruction_lines (program_lines hole_program) =
     [''add $s1, $s2, $s3'', ''add $s1, $t0, $s3'', ''lw $s4, 8'', ''nop'']"
  by code_simp

lemma hole_program_parse:
  "parseInstruction ''add $s1, $s2, $s3'' labels = Some (r_type ''add'' 1 2 3)"
  "parseInstruction ''add $s1, $t0, $s3'' labels = None"
  "parseInstruction ''lw $s4, 8'' labels = None"
  "parseInstruction ''nop'' labels = Some nop_object"
  by code_simp+

theorem C7_store_addresses_witness:
  "instructionCache (loadProgram constructor hole_program) (Num 0) = Some (r_type ''add'' 1 2 3)
   \<and> instructionCache (loadProgram constructor hole_program) (Num 4) = None
   \<and> instructionCache (loadProgram constructor hole_program) (Num 8) = None
   \<and> instructionCache (loadProgram constructor hole_program) (Num 12) = Some nop_object
   \<and> instructionCache (loadProgram constructor hole_program) (Num 6) = None"
proof -
  note C7 = C7_store_addresses [of constructor hole_program, unfolded hole_program_lines]
  from C7 have at: "\<And>n. n < 4 \<Longrightarrow>
      instructionCache (loadProgram constructor hole_program) (Num (4 * int n)) =
        parseInstruction
          ([''add $s1, $s2, $s3'', ''add $s1, $t0, $s3'', ''lw $s4, 8'', ''nop''] ! n)
          (firstPass (program_lines hole_program))"
    by simp
  from C7 have keys: "\<And>k. instructionCache (loadProgram constructor hole_program) k \<noteq> None
      \<Longrightarrow> \<exists>n < 4. k = Num (4 * int n)"
    by (simp add: numeral_eq_Suc)
  have "instructionCache (loadProgram constructor hole_program) (Num 6) = None"
  proof (rule ccontr)
    assume "instructionCache (loadProgram constructor hole_program) (Num 6) \<noteq> None"
    then obtain n where "(6::int) = 4 * int n" using keys by blast
    then show False by presburger
  qed
  then show ?thesis
    using at [of 0] at [of 1] at [of 2] at [of 3] by (simp add: hole_program_parse)
qed

section \<open>Properties of the forwarding unit\<close>

lemma forwarding_MEM_result_last:
  assumes "ID_slot (pipelineStages s) = Some d"
    and "EX_slot (pipelineStages s) = Some e"
    and "MEM_slot (pipelineStages s) = Some m"
    and "type (instruction m) = R_TYPE"
    and "rs (instruction d) = rd (instruction m)"
  shows "map_option rsValue (ID_slot (pipelineStages (executeForwarding s))) = Some (result m)"
  using assms by (simp add: executeForwarding_def Let_def)

lemma forwarding_program_lines:
  "instruction_lines (program_lines forwarding_program) =
     [''add $s1, $s2, $s3'', ''add $s1, $s4, $s5'', ''add $s6, $s1, $s0'']"
  by code_simp

lemma forwarding_program_parse:
  "parseInstruction ''add $s1, $s2, $s3'' labels = Some (r_type ''add'' 1 2 3)"
  "parseInstruction ''add $s1, $s4, $s5'' labels = Some (r_type ''add'' 1 4 5)"
  "parseInstruction ''add $s6, $s1, $s0'' labels = Some (r_type ''add'' 6 1 0)"
  by code_simp+

lemma forwarding_run_store:
  "instructionCache forwarding_run (Num 0) = Some (r_type ''add'' 1 2 3)"
  "instructionCache forwarding_run (Num 4) = Some (r_type ''add'' 1 4 5)"
  "instructionCache forwarding_run (Num 8) = Some (r_type ''add'' 6 1 0)"
  "instructionCache forwarding_run (Num 12) = None"
proof -
  have "instructionCache forwarding_run =
          store_of (firstPass (program_lines forwarding_program))
            [''add $s1, $s2, $s3'', ''add $s1, $s4, $s5'', ''add $s6, $s1, $s0'']"
    by (simp add: forwarding_run_def loadProgram_def Let_def secondPass_result
        forwarding_program_lines)
  then show
    "instructionCache forwarding_run (Num 0) = Some (r_type ''add'' 1 2 3)"
    "instructionCache forwarding_run (Num 4) = Some (r_type ''add'' 1 4 5)"
    "instructionCache forwarding_run (Num 8) = Some (r_type ''add'' 6 1 0)"
    "instructionCache forwarding_run (Num 12) = None"
    by (simp_all add: store_of_def forwarding_program_parse)
qed

lemma forwarding_run_fields:
  "registradores forwarding_run =
     new_registradores(Some 2 := Num 1, Some 3 := Num 2, Some 4 := Num 10, Some 5 := Num 20)"
  "pipelineStages forwarding_run = empty_stages"
  "PC forwarding_run = Num 0"
  "stalled forwarding_run = False"
  by (simp_all add: forwarding_run_def loadProgram_def constructor_def Let_def)

lemmas forwarding_run_eval =
  numeral_eq_Suc executeCycle_stages engine_defs value_defs Let_def forwarding_run_store
  forwarding_run_fields empty_stages_def new_registradores_def r_type_def

lemma forwarding_state_stages:
  "pipelineStages forwarding_state =
     \<lparr>IF_slot = None,
      ID_slot = Some \<lparr>instruction = r_type ''add'' 6 1 0, rsValue = Num 0, rtValue = Num 0\<rparr>,
      EX_slot = Some \<lparr>instruction = r_type ''add'' 1 4 5, result = Num 30\<rparr>,
      MEM_slot = Some \<lparr>instruction = r_type ''add'' 1 2 3, result = Num 3\<rparr>,
      WB_slot = None\<rparr>"
  unfolding forwarding_state_def by (simp add: forwarding_run_eval)

lemma forwarding_state_fetch:
  "PC forwarding_state = Num 12"
  "instructionCache forwarding_state = instructionCache forwarding_run"
  unfolding forwarding_state_def by (simp_all add: forwarding_run_eval)

text \<open>
  C1. \<open>forwarding_state\<close> is the run of \<open>forwarding_program\<close> at the start of its fifth
  cycle: the ID slot holds \<^verbatim>\<open>add $s6, $s1, $s0\<close>, which reads \<^verbatim>\<open>$s1\<close> as \<open>rs\<close>; the EX slot
  holds the R-type \<^verbatim>\<open>add $s1, $s4, $s5\<close> with result 30 and the MEM slot the older R-type
  \<^verbatim>\<open>add $s1, $s2, $s3\<close> with result 3. The claim asks for the EX result 30 in the cached
  \<open>rsValue\<close>; \<open>executeForwarding\<close> leaves the MEM result 3 there, because the MEM block
  runs second and overwrites what the EX block stored. After nine cycles all three
  instructions have written back: \<^verbatim>\<open>$s1\<close> holds 30, and \<^verbatim>\<open>$s6\<close>, which should hold
  \<^verbatim>\<open>$s1 + $s0 = 30\<close>, holds 3.
\<close>

theorem C1_forwarding_MEM_overrides_EX:
  "map_option (\<lambda>p. (rs (instruction p), rsValue p)) (ID_slot (pipelineStages forwarding_state))
     = Some (Some 1, Num 0)
   \<and> map_option (\<lambda>p. (type (instruction p), rd (instruction p), result p))
         (EX_slot (pipelineStages forwarding_state)) = Some (R_TYPE, Some 1, Num 30)
   \<and> map_option (\<lambda>p. (type (instruction p), rd (instruction p), result p))
         (MEM_slot (pipelineStages forwarding_state)) = Some (R_TYPE, Some 1, Num 3)
   \<and> map_option rsValue (ID_slot (pipelineStages (executeForwarding forwarding_state)))
       = Some (Num 3)
   \<and> registradores ((executeCycle ^^ 9) forwarding_run) (Some 1) = Num 30
   \<and> registradores ((executeCycle ^^ 9) forwarding_run) (Some 6) = Num 3"
proof -
  have "map_option rsValue (ID_slot (pipelineStages (executeForwarding forwarding_state)))
          = Some (Num 3)"
    by (simp add: executeForwarding_def forwarding_state_stages r_type_def Let_def)
  moreover have "registradores ((executeCycle ^^ 9) forwarding_run) (Some 1) = Num 30"
    by (simp add: forwarding_run_eval)
  moreover have "registradores ((executeCycle ^^ 9) forwarding_run) (Some 6) = Num 3"
    by (simp add: forwarding_run_eval)
  ultimately show ?thesis
    by (simp add: forwarding_state_stages r_type_def)
qed

section \<open>Properties of the hazard detector\<close>

text \<open>
  C4. \<open>detectHazards\<close> is true exactly when one of the three conditions of the
  specification holds: (structural) MEM holds a \<^verbatim>\<open>lw\<close>/\<^verbatim>\<open>sw\<close> and IF holds a
  \<^verbatim>\<open>lw\<close>/\<^verbatim>\<open>sw\<close>, or EX and ID both hold a \<^verbatim>\<open>mul\<close>; (data) the EX instruction is R-type
  and the \<open>rs\<close> or \<open>rt\<close> of the ID instruction equals its \<open>rd\<close>, or the EX instruction is a
  \<^verbatim>\<open>lw\<close> and the \<open>rs\<close> or \<open>rt\<close> of the ID instruction equals its \<open>rt\<close>; (control) ID holds a
  \<^verbatim>\<open>beq\<close> or a \<^verbatim>\<open>j\<close>.
\<close>

theorem C4_detectHazards_iff_spec:
  "detectHazards s = spec_hazard s"
proof -
  have "detectStructuralHazard s = spec_structural s"
    by (auto simp add: detectStructuralHazard_def spec_structural_def is_load_store_def
             Let_def split: option.splits)
  moreover have "detectDataHazard s = spec_data s"
    by (auto simp add: detectDataHazard_def spec_data_def Let_def split: option.splits)
  moreover have "detectControlHazard s = spec_control s"
    by (simp add: detectControlHazard_def spec_control_def)
  ultimately show ?thesis
    by (simp add: detectHazards_def spec_hazard_def)
qed

section \<open>Properties of the stages\<close>

text \<open>
  C6. With the MEM slot occupied, \<open>executeWB\<close> stores the result in register \<open>rd\<close> when the
  instruction is R-type, in register \<open>rt\<close> when it is not R-type and its opcode is \<^verbatim>\<open>lw\<close>,
  and otherwise leaves the whole register file as it was; in every case the MEM payload
  becomes the WB payload and the MEM slot is emptied.
\<close>

theorem C6_executeWB_registers:
  assumes "MEM_slot (pipelineStages s) = Some p"
  shows "registradores (executeWB s) =
           (if type (instruction p) = R_TYPE
            then (registradores s)(rd (instruction p) := result p)
            else if opcode (instruction p) = ''lw''
            then (registradores s)(rt (instruction p) := result p)
            else registradores s)
       \<and> WB_slot (pipelineStages (executeWB s)) = Some p
       \<and> MEM_slot (pipelineStages (executeWB s)) = None"
  using assms by (simp add: executeWB_def Let_def)

theorem C6_executeWB_registers_witness:
  "registradores (executeWB (wb_state (r_type ''add'' 1 2 3))) = new_registradores(Some 1 := Num 7)
   \<and> registradores (executeWB (wb_state (i_type ''lw'' 2 4 0))) = new_registradores(Some 4 := Num 7)
   \<and> registradores (executeWB (wb_state (i_type ''sw'' 2 4 0))) = new_registradores
   \<and> registradores (executeWB (wb_state (i_type ''beq'' 2 4 0))) = new_registradores
   \<and> registradores (executeWB (wb_state (j_type 3))) = new_registradores
   \<and> registradores (executeWB (wb_state nop_object)) = new_registradores
   \<and> WB_slot (pipelineStages (executeWB (wb_state (j_type 3))))
       = Some \<lparr>instruction = j_type 3, result = Num 7\<rparr>
   \<and> MEM_slot (pipelineStages (executeWB (wb_state (j_type 3)))) = None"
proof -
  have occupied: "MEM_slot (pipelineStages (wb_state i)) = Some \<lparr>instruction = i, result = Num 7\<rparr>"
    for i by (simp add: wb_state_def empty_stages_def)
  have regs: "registradores (wb_state i) = new_registradores" for i
    by (simp add: wb_state_def constructor_def)
  show ?thesis
    using C6_executeWB_registers [OF occupied [of "r_type ''add'' 1 2 3"]]
      C6_executeWB_registers [OF occupied [of "i_type ''lw'' 2 4 0"]]
      C6_executeWB_registers [OF occupied [of "i_type ''sw'' 2 4 0"]]
      C6_executeWB_registers [OF occupied [of "i_type ''beq'' 2 4 0"]]
      C6_executeWB_registers [OF occupied [of "j_type 3"]]
      C6_executeWB_registers [OF occupied [of nop_object]]
    by (simp add: regs r_type_def i_type_def j_type_def nop_object_def)
qed

section \<open>Properties of reset\<close>

text \<open>
  C9. A second \<open>reset\<close> changes nothing, and after \<open>reset\<close> the registers, the memory, the
  five stage slots, \<open>PC\<close>, the predictor table, the instruction store, the cycle count and
  the stall flag are those of a newly constructed engine.
\<close>

theorem C9_reset_idempotent:
  "reset (reset s) = reset s
   \<and> registradores (reset s) = registradores constructor
   \<and> memoria (reset s) = memoria constructor
   \<and> pipelineStages (reset s) = pipelineStages constructor
   \<and> PC (reset s) = PC constructor
   \<and> branchPredictor (reset s) = branchPredictor constructor
   \<and> instructionCache (reset s) = instructionCache constructor
   \<and> cycle (reset s) = cycle constructor
   \<and> stalled (reset s) = stalled constructor"
proof -
  have stopped: "isRunning (stop s) = False"
    by (simp add: stop_def)
  have "stop (reset s) = reset s"
    using stopped by (simp add: reset_def stop_def)
  then have "reset (reset s) = reset s"
    by (simp add: reset_def [of "reset s"]) (simp add: reset_def)
  then show ?thesis
    by (simp add: reset_def constructor_def)
qed

section \<open>Properties of the decode stage\<close>

text \<open>
  C2, as the code has it. With an instruction in IF, \<open>executeID\<close> sets \<open>PC\<close> for a \<^verbatim>\<open>beq\<close> to
  \<open>offset * 4\<close> when the values read from the registers \<open>rs\<close> and \<open>rt\<close>, each replaced by 0
  when falsy, are strictly equal, and to \<open>PC + 4\<close> otherwise; on the not-taken path no NOP
  is written to IF: the control part leaves the \<^verbatim>\<open>beq\<close> there, and the stage then moves it to
  the ID slot and empties IF. For a \<^verbatim>\<open>j\<close> it sets \<open>PC\<close> to \<open>target * 4\<close>.
\<close>

theorem C2_executeID_redirects_PC:
  assumes "IF_slot (pipelineStages s) = Some instr"
  shows "(opcode instr = ''beq''
            \<and> strict_eq (js_or (registradores s (rs instr)) (Num 0))
                         (js_or (registradores s (rt instr)) (Num 0))
          \<longrightarrow> PC (executeID s) = js_mul (field (offset instr)) (Num 4))
       \<and> (opcode instr = ''beq''
            \<and> \<not> strict_eq (js_or (registradores s (rs instr)) (Num 0))
                           (js_or (registradores s (rt instr)) (Num 0))
          \<longrightarrow> PC (executeID s) = js_add (PC s) (Num 4)
              \<and> IF_slot (pipelineStages (executeID_control s instr)) = Some instr
              \<and> IF_slot (pipelineStages (executeID s)) = None
              \<and> map_option instruction (ID_slot (pipelineStages (executeID s))) = Some instr)
       \<and> (opcode instr = ''j''
          \<longrightarrow> PC (executeID s) = js_mul (field (target instr)) (Num 4))"
  using assms by (simp add: executeID_def executeID_control_def Let_def)

theorem C2_executeID_redirects_PC_witness:
  "PC (executeID beq_taken_state) = Num 20
   \<and> PC (executeID beq_not_taken_state) = Num 12
   \<and> IF_slot (pipelineStages (executeID beq_not_taken_state)) = None
   \<and> PC (executeID j_state) = Num 12"
proof -
  have taken: "IF_slot (pipelineStages beq_taken_state) = Some (i_type ''beq'' 1 2 5)"
    by (simp add: beq_taken_state_def example_defs)
  have not_taken: "IF_slot (pipelineStages beq_not_taken_state) = Some (i_type ''beq'' 1 2 5)"
    by (simp add: beq_not_taken_state_def beq_taken_state_def example_defs)
  have jump: "IF_slot (pipelineStages j_state) = Some (j_type 3)"
    by (simp add: j_state_def example_defs)
  show ?thesis
    using C2_executeID_redirects_PC [OF taken] C2_executeID_redirects_PC [OF not_taken]
      C2_executeID_redirects_PC [OF jump]
    by (simp add: beq_not_taken_state_def beq_taken_state_def j_state_def example_defs
        value_defs)
qed

text \<open>
  C2, as the claim has it, fails on a \<^verbatim>\<open>beq\<close> that is not taken: \<open>beq_not_taken_state\<close>
  holds \<^verbatim>\<open>beq $s1, $s2, 5\<close> in IF with \<^verbatim>\<open>$s1 = 1\<close> and \<^verbatim>\<open>$s2 = 2\<close>. \<open>PC\<close> goes from 8 to 12,
  but IF is not replaced by a NOP: the control part leaves the \<^verbatim>\<open>beq\<close> in IF and the stage
  ends with IF empty.
\<close>

theorem C2_not_taken_writes_no_NOP:
  "map_option opcode (IF_slot (pipelineStages beq_not_taken_state)) = Some ''beq''
   \<and> PC (executeID beq_not_taken_state) = Num 12
   \<and> IF_slot (pipelineStages
        (executeID_control beq_not_taken_state (i_type ''beq'' 1 2 5))) \<noteq> Some nop_object
   \<and> IF_slot (pipelineStages (executeID beq_not_taken_state)) \<noteq> Some nop_object
   \<and> IF_slot (pipelineStages (executeID beq_not_taken_state)) = None"
  by (simp add: executeID_def executeID_control_def Let_def beq_not_taken_state_def
      beq_taken_state_def example_defs value_defs)

section \<open>Where the program counter changes\<close>

lemma executeForwarding_frame:
  "PC (executeForwarding s) = PC s"
  "IF_slot (pipelineStages (executeForwarding s)) = IF_slot (pipelineStages s)"
  "instructionCache (executeForwarding s) = instructionCache s"
  by (simp_all add: executeForwarding_def Let_def split: option.splits)

lemma executeWB_frame:
  "PC (executeWB s) = PC s"
  "IF_slot (pipelineStages (executeWB s)) = IF_slot (pipelineStages s)"
  "instructionCache (executeWB s) = instructionCache s"
  "stalled (executeWB s) = stalled s"
  by (simp_all add: executeWB_def Let_def split: option.splits)

lemma executeMEM_frame:
  "PC (executeMEM s) = PC s"
  "IF_slot (pipelineStages (executeMEM s)) = IF_slot (pipelineStages s)"
  "instructionCache (executeMEM s) = instructionCache s"
  "stalled (executeMEM s) = stalled s"
  by (simp_all add: executeMEM_def Let_def split: option.splits)

lemma executeEX_frame:
  "PC (executeEX s) = PC s"
  "IF_slot (pipelineStages (executeEX s)) = IF_slot (pipelineStages s)"
  "instructionCache (executeEX s) = instructionCache s"
  "stalled (executeEX s) = stalled s"
  by (simp_all add: executeEX_def Let_def split: option.splits)

lemma executeID_idle:
  "IF_slot (pipelineStages s) = None \<Longrightarrow> executeID s = s"
  by (simp add: executeID_def)

lemma executeIF_PC: "PC (executeIF s) = PC s"
  by (simp add: executeIF_def split: option.splits)

lemma executeIF_cache: "instructionCache (executeIF s) = instructionCache s"
  by (simp add: executeIF_def split: option.splits)

lemma executeIF_nothing_to_fetch:
  "instructionCache s (PC s) = None \<Longrightarrow> executeIF s = s"
  by (simp add: executeIF_def fetchInstruction_def)

text \<open>The state that reaches the decode stage within a cycle.\<close>

lemma before_decode:
  fixes s :: MIPSPipeline
  defines "s5 \<equiv> executeEX (executeMEM (executeWB
                   ((executeForwarding s)\<lparr>stalled := detectHazards (executeForwarding s)\<rparr>)))"
  shows "PC s5 = PC s"
    and "IF_slot (pipelineStages s5) = IF_slot (pipelineStages s)"
    and "instructionCache s5 = instructionCache s"
  unfolding s5_def
  by (simp_all add: executeEX_frame executeMEM_frame executeWB_frame executeForwarding_frame)

lemma cycle_with_empty_IF:
  assumes "IF_slot (pipelineStages s) = None"
  shows "PC (executeCycle s) = PC s
       \<and> instructionCache (executeCycle s) = instructionCache s
       \<and> (instructionCache s (PC s) = None \<longrightarrow> IF_slot (pipelineStages (executeCycle s)) = None)"
proof -
  define s5 where "s5 = executeEX (executeMEM (executeWB
                   ((executeForwarding s)\<lparr>stalled := detectHazards (executeForwarding s)\<rparr>)))"
  have s5: "PC s5 = PC s" "IF_slot (pipelineStages s5) = None"
    "instructionCache s5 = instructionCache s"
    unfolding s5_def using before_decode [of s] assms by simp_all
  have "executeID s5 = s5"
    by (rule executeID_idle [OF s5(2)])
  then have cyc: "executeCycle s = (executeIF s5)\<lparr>cycle := cycle (executeIF s5) + 1\<rparr>"
    by (simp add: executeCycle_stages s5_def Let_def)
  have "executeIF s5 = s5" if "instructionCache s (PC s) = None"
    using that by (simp add: executeIF_nothing_to_fetch s5)
  then show ?thesis
    by (auto simp add: cyc executeIF_PC executeIF_cache s5)
qed

lemma run_off_the_end:
  assumes "IF_slot (pipelineStages s) = None" and "instructionCache s (PC s) = None"
  shows "PC ((executeCycle ^^ n) s) = PC s
       \<and> IF_slot (pipelineStages ((executeCycle ^^ n) s)) = None
       \<and> instructionCache ((executeCycle ^^ n) s) = instructionCache s"
proof (induction n)
  case 0
  show ?case using assms by simp
next
  case (Suc n)
  define t where "t = (executeCycle ^^ n) s"
  have IH: "PC t = PC s" "IF_slot (pipelineStages t) = None"
    "instructionCache t = instructionCache s"
    using Suc.IH by (simp_all add: t_def)
  have no_fetch: "instructionCache t (PC t) = None"
    using assms(2) by (simp add: IH)
  from cycle_with_empty_IF [OF IH(2)] no_fetch
  have "PC (executeCycle t) = PC t \<and> instructionCache (executeCycle t) = instructionCache t
        \<and> IF_slot (pipelineStages (executeCycle t)) = None"
    by blast
  then show ?case
    by (simp add: IH t_def [symmetric])
qed

text \<open>
  C10. When the IF slot is empty at the start of a cycle, the cycle leaves \<open>PC\<close> as it
  was: the fetch stage never changes \<open>PC\<close>, and the decode stage, the only one that does,
  has nothing to consume. When moreover the store has no instruction at \<open>PC\<close>, IF stays
  empty, so \<open>PC\<close> keeps its value through any number of cycles.
\<close>

theorem C10_PC_unchanged_when_IF_empty:
  assumes "IF_slot (pipelineStages s) = None"
  shows "PC (executeCycle s) = PC s
       \<and> PC (executeIF s) = PC s
       \<and> (fetchInstruction s (PC s) = None \<longrightarrow>
            (\<forall>n. PC ((executeCycle ^^ n) s) = PC s
                 \<and> IF_slot (pipelineStages ((executeCycle ^^ n) s)) = None))"
  using cycle_with_empty_IF [OF assms] run_off_the_end [OF assms]
  by (simp add: executeIF_PC fetchInstruction_def)

theorem C10_PC_unchanged_when_IF_empty_witness:
  "PC (executeCycle constructor) = Num 0
   \<and> PC ((executeCycle ^^ 7) constructor) = Num 0
   \<and> PC (executeCycle forwarding_state) = Num 12
   \<and> PC ((executeCycle ^^ 5) forwarding_state) = Num 12"
proof -
  have new: "IF_slot (pipelineStages constructor) = None"
    by (simp add: example_defs)
  have new_store: "fetchInstruction constructor (PC constructor) = None"
    by (simp add: fetchInstruction_def example_defs)
  have run: "IF_slot (pipelineStages forwarding_state) = None"
    by (simp add: forwarding_state_stages)
  have run_store: "fetchInstruction forwarding_state (PC forwarding_state) = None"
    by (simp add: fetchInstruction_def forwarding_state_fetch forwarding_run_store)
  show ?thesis
    using C10_PC_unchanged_when_IF_empty [OF new] new_store
      C10_PC_unchanged_when_IF_empty [OF run] run_store
    by (simp add: forwarding_state_fetch example_defs)
qed

section \<open>The one-line loop\<close>

lemma loaded_fields:
  "pipelineStages (loadProgram constructor programText) = empty_stages"
  "PC (loadProgram constructor programText) = Num 0"
  "stalled (loadProgram constructor programText) = False"
  "registradores (loadProgram constructor programText) = new_registradores"
  by (simp_all add: loadProgram_def constructor_def Let_def)

lemma loop_label: "firstPass (program_lines loop_program) ''loop'' = Some 0"
  by code_simp

lemma loop_store: "instructionCache loop_loaded (Num 0) = Some loop_beq"
  by code_simp

lemma loop_unspaced_label: "firstPass (program_lines loop_program_unspaced) ''loop'' = Some 0"
  by code_simp

lemma loop_unspaced_tokens:
  "split_ws (strip_label loop_program_unspaced) = [''beq'', ''$s0,$s0,loop'']"
  by code_simp

lemma loop_unspaced_store: "instructionCache loop_unspaced_loaded (Num 0) = None"
  by code_simp

lemma js_or_0_not_NaN: "js_or v (Num 0) \<noteq> NaN"
  by (cases v) (simp_all add: js_or_def)

lemma loop_first_cycle:
  "pipelineStages (executeCycle loop_loaded) = empty_stages\<lparr>IF_slot := Some loop_beq\<rparr>"
  "PC (executeCycle loop_loaded) = Num 0"
  by (simp_all add: executeCycle_stages engine_defs Let_def loop_loaded_def loaded_fields
      loop_store [unfolded loop_loaded_def] empty_stages_def)

lemma loop_second_cycle:
  "PC (executeCycle (executeCycle loop_loaded)) = Num 0"
  "map_option instruction (ID_slot (pipelineStages (executeCycle (executeCycle loop_loaded))))
     = Some loop_beq"
  by (simp_all add: executeCycle_stages engine_defs value_defs Let_def loop_loaded_def
      loaded_fields loop_store [unfolded loop_loaded_def] empty_stages_def loop_beq_def
      new_registradores_def)

lemma loop_unspaced_cycles:
  "IF_slot (pipelineStages (executeCycle loop_unspaced_loaded)) = None"
  "ID_slot (pipelineStages (executeCycle (executeCycle loop_unspaced_loaded))) = None"
  "PC (executeCycle (executeCycle loop_unspaced_loaded)) = Num 0"
  by (simp_all add: executeCycle_stages engine_defs Let_def loop_unspaced_loaded_def
      loaded_fields loop_unspaced_store [unfolded loop_unspaced_loaded_def] empty_stages_def)

text \<open>
  C5, as the code has it. For the one-line program \<^verbatim>\<open>loop: beq $s0, $s0, loop\<close>, with the
  operands separated by white space, the loader binds \<^verbatim>\<open>loop\<close> to the instruction index 0
  and stores the branch, with offset 0, at the address 0. The first cycle fetches it and
  leaves \<open>PC\<close> at 0; decoding it sets \<open>PC\<close> to 0 whatever the registers hold, and so does
  the second cycle, which is the first to decode it: \<open>PC\<close> is 0 and not 4, and the branch
  is in the ID slot.
\<close>

theorem C5_loop_branch_redirects_to_0:
  "firstPass (program_lines loop_program) ''loop'' = Some 0
   \<and> instructionCache loop_loaded (Num 0) = Some loop_beq
   \<and> IF_slot (pipelineStages (executeCycle loop_loaded)) = Some loop_beq
   \<and> PC (executeCycle loop_loaded) = Num 0
   \<and> (\<forall>regs. PC (executeID ((executeCycle loop_loaded)\<lparr>registradores := regs\<rparr>)) = Num 0)
   \<and> PC (executeCycle (executeCycle loop_loaded)) = Num 0
   \<and> map_option instruction (ID_slot (pipelineStages (executeCycle (executeCycle loop_loaded))))
       = Some loop_beq"
proof -
  have "PC (executeID ((executeCycle loop_loaded)\<lparr>registradores := regs\<rparr>)) = Num 0" for regs
    using js_or_0_not_NaN [of "regs (Some 0)"]
    by (simp add: executeID_def executeID_control_def Let_def loop_first_cycle loop_beq_def
        strict_eq_def js_mul_def)
  then show ?thesis
    by (simp add: loop_label loop_store loop_first_cycle loop_second_cycle)
qed

text \<open>
  C5, as the claim has it, fails on the line \<^verbatim>\<open>loop: beq $s0,$s0,loop\<close>: the label is bound
  to 0, but the parser splits the instruction at white space only, finds the two tokens
  \<^verbatim>\<open>beq\<close> and \<^verbatim>\<open>$s0,$s0,loop\<close> where a \<^verbatim>\<open>beq\<close> needs four, and rejects the line. The
  store has nothing at the address 0, the first cycle fetches nothing and the second
  cycle decodes nothing: the branch never reaches the ID slot.
\<close>

theorem C5_unspaced_branch_is_rejected:
  "firstPass (program_lines loop_program_unspaced) ''loop'' = Some 0
   \<and> split_ws (strip_label loop_program_unspaced) = [''beq'', ''$s0,$s0,loop'']
   \<and> instructionCache loop_unspaced_loaded (Num 0) = None
   \<and> IF_slot (pipelineStages (executeCycle loop_unspaced_loaded)) = None
   \<and> ID_slot (pipelineStages (executeCycle (executeCycle loop_unspaced_loaded))) = None"
  by (simp add: loop_unspaced_label loop_unspaced_tokens loop_unspaced_store
      loop_unspaced_cycles)

end
